theory Spec2Isabelle
  imports Main "HOL-Library.Sublist"
begin

section \<open>PolyglotLab: the translation orchestration layer of app.py\<close>

text \<open>
  The development embeds the functions of \<^verbatim>\<open>app.py\<close> that sit between the user
  interface and the translation models: the two configuration dictionaries, the lazy
  pipeline cache, the style hint composer, \<^verbatim>\<open>translate_text\<close> and
  \<^verbatim>\<open>back_translate\<close>.

  Python strings are modelled as \<^typ>\<open>string\<close>; a \<^typ>\<open>char\<close> stands for a code
  point below 256. The arguments are strings, as the annotations of the source say, so
  \<^verbatim>\<open>text or ""\<close> is the text itself.
\<close>

subsection \<open>Strings\<close>

text \<open>
  \<^verbatim>\<open>str.strip()\<close> removes leading and trailing whitespace. Below 256 the code points
  Python counts as whitespace are 9 to 13, 28 to 32, 133 and 160.
\<close>

definition isspace :: "char \<Rightarrow> bool" where
  "isspace c = (of_char c \<in> {9, 10, 11, 12, 13, 28, 29, 30, 31, 32, 133, 160 :: nat})"

definition strip :: "string \<Rightarrow> string" where
  "strip s = rev (dropWhile isspace (rev (dropWhile isspace s)))"

text \<open>\<^verbatim>\<open>sep.join(xs)\<close>\<close>

fun join :: "string \<Rightarrow> string list \<Rightarrow> string" where
  "join sep [] = []"
| "join sep [x] = x"
| "join sep (x # y # ys) = x @ sep @ join sep (y # ys)"

subsection \<open>Language and model configuration\<close>

definition LANG_CODES :: "string \<rightharpoonup> string" where
  "LANG_CODES = map_of
     [(''English'', ''en''),
      (''French'', ''fr''),
      (''German'', ''de''),
      (''Spanish'', ''es''),
      (''Swedish'', ''sv'')]"

type_synonym lang_pair = "string \<times> string"

definition MODEL_MAP :: "lang_pair \<rightharpoonup> string" where
  "MODEL_MAP = map_of
     [((''en'', ''fr''), ''Helsinki-NLP/opus-mt-en-fr''),
      ((''fr'', ''en''), ''Helsinki-NLP/opus-mt-fr-en''),
      ((''en'', ''de''), ''Helsinki-NLP/opus-mt-en-de''),
      ((''de'', ''en''), ''Helsinki-NLP/opus-mt-de-en''),
      ((''en'', ''es''), ''Helsinki-NLP/opus-mt-en-es''),
      ((''es'', ''en''), ''Helsinki-NLP/opus-mt-es-en''),
      ((''en'', ''sv''), ''Helsinki-NLP/opus-mt-en-sv''),
      ((''sv'', ''en''), ''Helsinki-NLP/opus-mt-sv-en'')]"

subsection \<open>Exceptions, the external capability and the process state\<close>

text \<open>
  An exception is a value. \<open>ValueError msg\<close> is any exception that
  \<^verbatim>\<open>except ValueError\<close> catches, with \<open>msg\<close> its \<^verbatim>\<open>str()\<close>; \<open>KeyError k\<close> is a
  dictionary lookup of a missing key \<open>k\<close>; \<open>OtherError\<close> is any other exception.
\<close>

datatype error = ValueError string | KeyError string | OtherError string

text \<open>
  A loaded pipeline is a callable: it takes the input text and \<^verbatim>\<open>max_length\<close> and
  gives the \<^verbatim>\<open>translation_text\<close> of its first output, or raises. The library function
  \<^verbatim>\<open>transformers.pipeline(task, model=...)\<close> is a parameter \<open>pipeline\<close> of the model:
  it takes the task and the model name and gives a callable, or raises.
\<close>

type_synonym translator = "string \<Rightarrow> nat \<Rightarrow> error + string"

type_synonym loader = "string \<Rightarrow> string \<Rightarrow> error + translator"

text \<open>
  What the code does to the outside world is recorded in a trace: a call of
  \<^verbatim>\<open>pipeline\<close> that returned a model for a pair, one that raised, and a call of a
  loaded translator on an input.
\<close>

datatype event = Loaded lang_pair | LoadFailed lang_pair | Invoked lang_pair string

record state =
  translation_pipelines :: "lang_pair \<rightharpoonup> translator"
  trace :: "event list"

definition initial_state :: state where
  "initial_state = \<lparr>translation_pipelines = Map.empty, trace = []\<rparr>"

subsection \<open>The lazy pipeline cache\<close>

definition get_translation_pipeline ::
  "loader \<Rightarrow> string \<Rightarrow> string \<Rightarrow> state \<Rightarrow> (error + translator) \<times> state" where
  "get_translation_pipeline pipeline src_code tgt_code s =
     (let key = (src_code, tgt_code) in
      case MODEL_MAP key of
        None \<Rightarrow>
          (Inl (ValueError (''Language pair '' @ src_code @ ''->'' @ tgt_code
                              @ '' not supported yet.'')), s)
      | Some model_name \<Rightarrow>
          (case translation_pipelines s key of
             Some p \<Rightarrow> (Inr p, s)
           | None \<Rightarrow>
               (let task = ''translation_'' @ src_code @ ''_to_'' @ tgt_code in
                case pipeline task model_name of
                  Inl e \<Rightarrow> (Inl e, s\<lparr>trace := trace s @ [LoadFailed key]\<rparr>)
                | Inr p \<Rightarrow>
                    (Inr p, s\<lparr>translation_pipelines := (translation_pipelines s)(key \<mapsto> p),
                              trace := trace s @ [Loaded key]\<rparr>))))"

subsection \<open>Core translation logic\<close>

definition apply_style_hints :: "string \<Rightarrow> string \<Rightarrow> string \<Rightarrow> string \<Rightarrow> string" where
  "apply_style_hints text tone domain tgt_lang =
     (let hints0 = [];
          hints1 = (if domain \<noteq> ''General'' then hints0 @ [domain @ '' context''] else hints0);
          hints = (if tone \<noteq> ''Neutral'' then hints1 @ [tone @ '' tone''] else hints1)
      in if hints \<noteq> [] then
           (let hint_str = join '', '' hints;
                styled = ''['' @ hint_str @ '' in '' @ tgt_lang @ ''] '' @ text
            in styled)
         else text)"

definition translate_text ::
  "loader \<Rightarrow> string \<Rightarrow> string \<Rightarrow> string \<Rightarrow> string \<Rightarrow> string \<Rightarrow> state
     \<Rightarrow> (error + string) \<times> state" where
  "translate_text pipeline text0 src_lang tgt_lang tone domain s =
     (let text = strip text0 in
      if text = [] then (Inr ''Please enter some text to translate.'', s)
      else if src_lang = tgt_lang then (Inr text, s)
      else
        case LANG_CODES src_lang of
          None \<Rightarrow> (Inl (KeyError src_lang), s)
        | Some src_code \<Rightarrow>
            (case LANG_CODES tgt_lang of
               None \<Rightarrow> (Inl (KeyError tgt_lang), s)
             | Some tgt_code \<Rightarrow>
                 (case get_translation_pipeline pipeline src_code tgt_code s of
                    (Inl (ValueError msg), s1) \<Rightarrow> (Inr msg, s1)
                  | (Inl e, s1) \<Rightarrow> (Inl e, s1)
                  | (Inr translator, s1) \<Rightarrow>
                      (let styled_input = apply_style_hints text tone domain tgt_lang;
                           s2 = s1\<lparr>trace := trace s1 @ [Invoked (src_code, tgt_code) styled_input]\<rparr>
                       in case translator styled_input 512 of
                            Inl e \<Rightarrow> (Inl e, s2)
                          | Inr translated \<Rightarrow> (Inr (strip translated), s2)))))"

definition back_translate ::
  "loader \<Rightarrow> string \<Rightarrow> string \<Rightarrow> string \<Rightarrow> string \<Rightarrow> string \<Rightarrow> state
     \<Rightarrow> (error + string \<times> string) \<times> state" where
  "back_translate pipeline text0 src_lang tgt_lang tone domain s =
     (let text = strip text0 in
      if text = [] then (Inr (''Please enter some text to translate.'', ''''), s)
      else if src_lang = tgt_lang then (Inr (text, text), s)
      else
        case translate_text pipeline text src_lang tgt_lang tone domain s of
          (Inl e, s1) \<Rightarrow> (Inl e, s1)
        | (Inr forward, s1) \<Rightarrow>
            (case translate_text pipeline forward tgt_lang src_lang ''Neutral'' ''General'' s1 of
               (Inl e, s2) \<Rightarrow> (Inl e, s2)
             | (Inr backward, s2) \<Rightarrow> (Inr (forward, backward), s2)))"

subsection \<open>The states a process can be in\<close>

text \<open>
  The process starts with an empty cache; every later state is the result of a call of
  one of the three functions above, with any arguments, made after the call before it
  has returned. The library's loader need not behave the same way from one call to the
  next (a download can fail now and succeed later), so each step has a loader of its own.
  The other functions of \<^verbatim>\<open>app.py\<close> reach the cache only through \<open>translate_text\<close>.
\<close>

inductive reachable :: "state \<Rightarrow> bool" where
  start: "reachable initial_state"
| after_get:
    "reachable s \<Longrightarrow>
     reachable (snd (get_translation_pipeline pipeline src_code tgt_code s))"
| after_translate:
    "reachable s \<Longrightarrow>
     reachable (snd (translate_text pipeline text src_lang tgt_lang tone domain s))"
| after_back_translate:
    "reachable s \<Longrightarrow>
     reachable (snd (back_translate pipeline text src_lang tgt_lang tone domain s))"

subsection \<open>The invariant of the cache\<close>

text \<open>
  A pair is in the cache exactly when its model has been loaded, once; and only pairs of
  \<open>MODEL_MAP\<close> are in the cache. The number of loads of a pair is read from the trace.
\<close>

definition cache_inv :: "state \<Rightarrow> bool" where
  "cache_inv s \<longleftrightarrow>
     (\<forall>k. count_list (trace s) (Loaded k) = (if translation_pipelines s k = None then 0 else 1))
     \<and> dom (translation_pipelines s) \<subseteq> dom MODEL_MAP"

text \<open>
  The calls of \<^verbatim>\<open>pipeline\<close> made for a pair so far, whether they returned or raised.
\<close>

definition load_calls :: "lang_pair \<Rightarrow> event list \<Rightarrow> nat" where
  "load_calls key tr = count_list tr (Loaded key) + count_list tr (LoadFailed key)"

subsection \<open>A stub capability for concrete runs\<close>

text \<open>
  A loader that always succeeds; the translator it gives tags its input with the task.
\<close>

definition stub_translator :: "string \<Rightarrow> translator" where
  "stub_translator task text max_length = Inr (''<'' @ task @ ''> '' @ text)"

definition stub_pipeline :: loader where
  "stub_pipeline task model_name = Inr (stub_translator task)"

text \<open>A loader that always raises, as when the model cannot be fetched.\<close>

definition failing_pipeline :: loader where
  "failing_pipeline task model_name = Inl (OtherError ''model not available'')"

section \<open>Properties\<close>

subsection \<open>Facts about strings\<close>

lemma strip_blank: "\<forall>c \<in> set s. isspace c \<Longrightarrow> strip s = []"
proof -
  assume "\<forall>c \<in> set s. isspace c"
  then have d: "dropWhile isspace s = []" by simp
  show ?thesis by (simp only: strip_def d rev.simps dropWhile.simps)
qed

lemma dropWhile_rev_Nil:
  assumes a: "dropWhile P (rev (dropWhile P s)) = []"
  shows "dropWhile P s = []"
proof (rule ccontr)
  assume b: "dropWhile P s \<noteq> []"
  from b have "\<not> P (hd (dropWhile P s))" by (rule hd_dropWhile)
  moreover from b have "hd (dropWhile P s) \<in> set (dropWhile P s)" by simp
  moreover from a have "\<forall>x \<in> set (dropWhile P s). P x" by (simp only: dropWhile_eq_Nil_conv set_rev)
  ultimately show False by blast
qed

lemma strip_empty_iff: "strip s = [] \<longleftrightarrow> (\<forall>c \<in> set s. isspace c)"
proof
  assume "strip s = []"
  then have "dropWhile isspace (rev (dropWhile isspace s)) = []" by (simp only: strip_def rev_is_Nil_conv)
  then have "dropWhile isspace s = []" by (rule dropWhile_rev_Nil)
  then show "\<forall>c \<in> set s. isspace c" by (simp only: dropWhile_eq_Nil_conv)
next
  assume "\<forall>c \<in> set s. isspace c" then show "strip s = []" by (rule strip_blank)
qed

lemma dropWhile_fixed: "xs = [] \<or> \<not> P (hd xs) \<Longrightarrow> dropWhile P xs = xs"
  by (cases xs) auto

lemma drop_trailing_hd:
  assumes "xs = [] \<or> \<not> P (hd xs)"
  shows "rev (dropWhile P (rev xs)) = [] \<or> \<not> P (hd (rev (dropWhile P (rev xs))))"
proof (cases "rev (dropWhile P (rev xs)) = []")
  case True then show ?thesis by simp
next
  case False
  have "rev (dropWhile P (rev xs)) @ rev (takeWhile P (rev xs)) = xs"
    by (simp only: rev_append[symmetric] takeWhile_dropWhile_id rev_rev_ident)
  then have split: "xs = rev (dropWhile P (rev xs)) @ rev (takeWhile P (rev xs))" by (rule sym)
  with False have "hd xs = hd (rev (dropWhile P (rev xs)))" by (metis hd_append2)
  moreover from False split have "xs \<noteq> []" by auto
  ultimately show ?thesis using assms by simp
qed

lemma strip_idem: "strip (strip s) = strip s"
proof -
  let ?t = "dropWhile isspace s"
  have t: "?t = [] \<or> \<not> isspace (hd ?t)" using hd_dropWhile[of isspace s] by blast
  have "strip s = [] \<or> \<not> isspace (hd (strip s))"
    unfolding strip_def using t by (rule drop_trailing_hd)
  then have "dropWhile isspace (strip s) = strip s" by (rule dropWhile_fixed)
  then have "strip (strip s) = rev (dropWhile isspace (rev (strip s)))"
    by (simp add: strip_def)
  also have "\<dots> = strip s" by (simp add: strip_def)
  finally show ?thesis .
qed

subsection \<open>One equation for each path through the code\<close>

lemma get_unsupported:
  "MODEL_MAP (src_code, tgt_code) = None \<Longrightarrow>
   get_translation_pipeline pipeline src_code tgt_code s =
     (Inl (ValueError (''Language pair '' @ src_code @ ''->'' @ tgt_code @ '' not supported yet.'')), s)"
  by (simp add: get_translation_pipeline_def)

lemma get_cached:
  "MODEL_MAP (src_code, tgt_code) = Some m \<Longrightarrow>
   translation_pipelines s (src_code, tgt_code) = Some p \<Longrightarrow>
   get_translation_pipeline pipeline src_code tgt_code s = (Inr p, s)"
  by (simp add: get_translation_pipeline_def)

lemma get_load_ok:
  "MODEL_MAP (src_code, tgt_code) = Some m \<Longrightarrow>
   translation_pipelines s (src_code, tgt_code) = None \<Longrightarrow>
   pipeline (''translation_'' @ src_code @ ''_to_'' @ tgt_code) m = Inr p \<Longrightarrow>
   get_translation_pipeline pipeline src_code tgt_code s =
     (Inr p, s\<lparr>translation_pipelines := (translation_pipelines s)((src_code, tgt_code) \<mapsto> p),
              trace := trace s @ [Loaded (src_code, tgt_code)]\<rparr>)"
  by (simp add: get_translation_pipeline_def Let_def)

lemma get_load_failed:
  "MODEL_MAP (src_code, tgt_code) = Some m \<Longrightarrow>
   translation_pipelines s (src_code, tgt_code) = None \<Longrightarrow>
   pipeline (''translation_'' @ src_code @ ''_to_'' @ tgt_code) m = Inl e \<Longrightarrow>
   get_translation_pipeline pipeline src_code tgt_code s =
     (Inl e, s\<lparr>trace := trace s @ [LoadFailed (src_code, tgt_code)]\<rparr>)"
  by (simp add: get_translation_pipeline_def Let_def)

lemma translate_blank:
  "strip text = [] \<Longrightarrow>
   translate_text pipeline text src_lang tgt_lang tone domain s =
     (Inr ''Please enter some text to translate.'', s)"
  by (simp add: translate_text_def)

lemma translate_same:
  "strip text \<noteq> [] \<Longrightarrow>
   translate_text pipeline text lang lang tone domain s = (Inr (strip text), s)"
  by (simp add: translate_text_def)

lemma translate_strip:
  "translate_text pipeline (strip text) src_lang tgt_lang tone domain s =
   translate_text pipeline text src_lang tgt_lang tone domain s"
  by (simp add: translate_text_def strip_idem)

lemma translate_unknown:
  "strip text \<noteq> [] \<Longrightarrow> src_lang \<noteq> tgt_lang \<Longrightarrow>
   LANG_CODES src_lang = None \<or> LANG_CODES tgt_lang = None \<Longrightarrow>
   translate_text pipeline text src_lang tgt_lang tone domain s =
     (Inl (KeyError (if LANG_CODES src_lang = None then src_lang else tgt_lang)), s)"
  by (auto simp add: translate_text_def split: option.splits)

lemma translate_unsupported:
  "strip text \<noteq> [] \<Longrightarrow> src_lang \<noteq> tgt_lang \<Longrightarrow>
   LANG_CODES src_lang = Some src_code \<Longrightarrow> LANG_CODES tgt_lang = Some tgt_code \<Longrightarrow>
   MODEL_MAP (src_code, tgt_code) = None \<Longrightarrow>
   translate_text pipeline text src_lang tgt_lang tone domain s =
     (Inr (''Language pair '' @ src_code @ ''->'' @ tgt_code @ '' not supported yet.''), s)"
  by (simp add: translate_text_def get_unsupported)

subsection \<open>The invariant of the cache is kept by every call\<close>

lemma cache_inv_initial: "cache_inv initial_state"
  by (simp add: cache_inv_def initial_state_def)

lemma count_list_append: "count_list (xs @ ys) x = count_list xs x + count_list ys x"
  by (induction xs) auto

lemma cache_inv_invoked:
  "cache_inv (s\<lparr>trace := trace s @ [Invoked k x]\<rparr>) = cache_inv s"
  by (simp add: cache_inv_def count_list_append)

lemma cache_inv_get:
  assumes "cache_inv s"
  shows "cache_inv (snd (get_translation_pipeline pipeline src_code tgt_code s))"
proof (cases "MODEL_MAP (src_code, tgt_code)")
  case None
  then show ?thesis using assms by (simp add: get_unsupported)
next
  case (Some m)
  show ?thesis
  proof (cases "translation_pipelines s (src_code, tgt_code)")
    case c: (Some p)
    then show ?thesis using assms Some by (simp add: get_cached)
  next
    case c: None
    show ?thesis
    proof (cases "pipeline (''translation_'' @ src_code @ ''_to_'' @ tgt_code) m")
      case (Inl e)
      then show ?thesis using assms Some c
        by (simp add: get_load_failed cache_inv_def count_list_append)
    next
      case (Inr p)
      then show ?thesis using assms Some c
        by (auto simp add: get_load_ok cache_inv_def count_list_append)
    qed
  qed
qed

lemma cache_inv_translate:
  assumes "cache_inv s"
  shows "cache_inv (snd (translate_text pipeline text0 src_lang tgt_lang tone domain s))"
proof -
  have g: "cache_inv s1" if "get_translation_pipeline pipeline a b s = (r, s1)" for a b r s1
    using cache_inv_get[OF assms, of pipeline a b] that by simp
  show ?thesis
    unfolding translate_text_def Let_def using assms
    by (auto split: option.splits prod.splits sum.splits error.splits
             simp: cache_inv_invoked dest: g)
qed

lemma cache_inv_back_translate:
  assumes "cache_inv s"
  shows "cache_inv (snd (back_translate pipeline text0 src_lang tgt_lang tone domain s))"
proof -
  have t: "cache_inv s1"
    if "cache_inv s0" and "translate_text pipeline x a b c d s0 = (r, s1)" for x a b c d r s0 s1
    using cache_inv_translate[OF that(1), of pipeline x a b c d] that(2) by simp
  show ?thesis
    unfolding back_translate_def Let_def using assms
    by (auto split: prod.splits sum.splits dest: t)
qed

lemma reachable_cache_inv: "reachable s \<Longrightarrow> cache_inv s"
  by (induction rule: reachable.induct)
     (simp_all add: cache_inv_initial cache_inv_get cache_inv_translate cache_inv_back_translate)

section \<open>The claims\<close>

subsection \<open>Translation of a text into its own language\<close>

text \<open>
  Claim C1, as the code has it: for every text whose trimmed form is not empty, every
  language name (in the registry or not), every tone and every domain, \<open>translate_text\<close>
  with the same name as source and target returns the text with its leading and trailing
  whitespace removed, so the text itself when it has none. The state is returned as it
  was: no model is loaded and none is called.
\<close>

theorem identity_law_trimmed:
  "strip text \<noteq> [] \<Longrightarrow>
   translate_text pipeline text lang lang tone domain s = (Inr (strip text), s)"
  by (rule translate_same)

theorem identity_law_trimmed_witness:
  "strip ''  Bonjour '' \<noteq> []
   \<and> translate_text stub_pipeline ''  Bonjour '' ''Klingon'' ''Klingon'' ''Formal'' ''Business''
       initial_state = (Inr ''Bonjour'', initial_state)"
  using identity_law_trimmed [of "''  Bonjour ''" stub_pipeline "''Klingon''" "''Formal''"
      "''Business''" initial_state]
  by (simp add: strip_def isspace_def)

text \<open>
  The result is not always the input exactly: a leading blank is removed.
\<close>

theorem identity_law_counterexample:
  "fst (translate_text stub_pipeline '' hi'' ''English'' ''English'' ''Neutral'' ''General''
          initial_state) = Inr ''hi''
   \<and> fst (translate_text stub_pipeline '' hi'' ''English'' ''English'' ''Neutral'' ''General''
          initial_state) \<noteq> Inr '' hi''"
  by (simp add: translate_text_def strip_def isspace_def)

subsection \<open>Language names outside the registry\<close>

text \<open>
  Claim C2, as the code has it: when the source or the target name is not a key of
  \<open>LANG_CODES\<close>, \<open>translate_text\<close> returns a string only on the two paths before the
  lookup (the prompt for a blank text, the trimmed text for equal names). On every other
  input the lookup raises \<open>KeyError\<close>, for the source name when that one is unknown and for
  the target name otherwise; the exception reaches the caller and the state is untouched.
\<close>

theorem unknown_language_raises:
  assumes "LANG_CODES src_lang = None \<or> LANG_CODES tgt_lang = None"
  shows "translate_text pipeline text src_lang tgt_lang tone domain s =
     (if strip text = [] then Inr ''Please enter some text to translate.''
      else if src_lang = tgt_lang then Inr (strip text)
      else Inl (KeyError (if LANG_CODES src_lang = None then src_lang else tgt_lang)), s)"
  using assms translate_blank translate_same translate_unknown by simp

theorem unknown_language_raises_witness:
  "LANG_CODES ''English'' = Some ''en'' \<and> LANG_CODES ''Klingon'' = None
   \<and> translate_text stub_pipeline ''Hi'' ''English'' ''Klingon'' ''Neutral'' ''General''
       initial_state = (Inl (KeyError ''Klingon''), initial_state)"
proof -
  have h: "LANG_CODES ''English'' = None \<or> LANG_CODES ''Klingon'' = None"
    by (simp add: LANG_CODES_def)
  show ?thesis
    using h unknown_language_raises [OF h, of stub_pipeline "''Hi''" "''Neutral''" "''General''"
        initial_state]
    by (simp add: strip_def isspace_def LANG_CODES_def)
qed

text \<open>
  An unknown source name with a text to translate: the caller gets the exception, not a
  message.
\<close>

theorem unknown_language_counterexample:
  "translate_text stub_pipeline ''Hi'' ''Klingon'' ''French'' ''Neutral'' ''General'' initial_state
     = (Inl (KeyError ''Klingon''), initial_state)"
  by (simp add: translate_text_def strip_def isspace_def LANG_CODES_def)

subsection \<open>Blank input\<close>

text \<open>
  Claim C6: for every source language, target language, tone and domain,
  \<open>translate_text\<close> on the empty string returns the fixed prompt message, and on a text
  made of whitespace only it returns the same message, since the text is trimmed before
  the test. The state is unchanged.
\<close>

theorem empty_input_law:
  "translate_text pipeline [] src_lang tgt_lang tone domain s =
     (Inr ''Please enter some text to translate.'', s)
   \<and> ((\<forall>c \<in> set text. isspace c) \<longrightarrow>
        translate_text pipeline text src_lang tgt_lang tone domain s =
          (Inr ''Please enter some text to translate.'', s))"
  by (simp add: translate_blank strip_blank)

theorem empty_input_law_witness:
  "list_all isspace ''   ''
   \<and> translate_text stub_pipeline ''   '' ''English'' ''French'' ''Formal'' ''Business''
       initial_state = (Inr ''Please enter some text to translate.'', initial_state)"
  using empty_input_law [of stub_pipeline "''English''" "''French''" "''Formal''" "''Business''"
      initial_state "''   ''"]
  by (simp add: isspace_def)

text \<open>
  Claim C7, as the code has it: for every choice of languages, tone and domain,
  \<open>back_translate\<close> on an empty or whitespace-only text returns the fixed prompt message
  as the forward component and the empty string as the backward component.
\<close>

theorem back_translate_empty_input:
  "back_translate pipeline [] src_lang tgt_lang tone domain s =
     (Inr (''Please enter some text to translate.'', []), s)
   \<and> ((\<forall>c \<in> set text. isspace c) \<longrightarrow>
        back_translate pipeline text src_lang tgt_lang tone domain s =
          (Inr (''Please enter some text to translate.'', []), s))"
  by (simp add: back_translate_def strip_blank)

theorem back_translate_empty_input_witness:
  "list_all isspace ''  ''
   \<and> back_translate stub_pipeline ''  '' ''English'' ''French'' ''Formal'' ''Business''
       initial_state = (Inr (''Please enter some text to translate.'', []), initial_state)"
  using back_translate_empty_input [of stub_pipeline "''English''" "''French''" "''Formal''"
      "''Business''" initial_state "''  ''"]
  by (simp add: isspace_def)

text \<open>
  The backward placeholder is the empty string, not a second copy of the prompt.
\<close>

theorem back_translate_empty_input_counterexample:
  "back_translate stub_pipeline [] ''English'' ''French'' ''Neutral'' ''General'' initial_state
     = (Inr (''Please enter some text to translate.'', []), initial_state)
   \<and> back_translate stub_pipeline [] ''English'' ''French'' ''Neutral'' ''General'' initial_state
     \<noteq> (Inr (''Please enter some text to translate.'', ''Please enter some text to translate.''),
         initial_state)"
  by (simp add: back_translate_def strip_def)

subsection \<open>Style hints\<close>

text \<open>
  Claim C8: with the default tone \<open>Neutral\<close> and the default domain \<open>General\<close>,
  \<open>apply_style_hints\<close> returns the text unchanged, for every text and target language name.
\<close>

theorem style_hint_neutrality:
  "apply_style_hints text ''Neutral'' ''General'' tgt_lang = text"
  by (simp add: apply_style_hints_def)

text \<open>
  Claim C9: when an axis is not at its default, \<open>apply_style_hints\<close> puts a bracketed
  prefix before the text: \<open>[<domain> context, <tone> tone in <target>]\<close> and a blank, with
  the domain clause only for a domain other than \<open>General\<close> and the tone clause only for a
  tone other than \<open>Neutral\<close>. For the text \<open>Hi\<close> with tone \<open>Formal\<close>, domain
  \<open>Business\<close> and target \<open>French\<close> the result is a hint followed by \<open>Hi\<close>, and the hint
  contains \<open>Business context\<close> and \<open>Formal tone\<close>.
\<close>

theorem style_hint_composition:
  "(domain \<noteq> ''General'' \<and> tone \<noteq> ''Neutral'' \<longrightarrow>
      apply_style_hints text tone domain tgt_lang =
        ''['' @ domain @ '' context, '' @ tone @ '' tone in '' @ tgt_lang @ ''] '' @ text)
   \<and> (domain \<noteq> ''General'' \<and> tone = ''Neutral'' \<longrightarrow>
      apply_style_hints text tone domain tgt_lang =
        ''['' @ domain @ '' context in '' @ tgt_lang @ ''] '' @ text)
   \<and> (domain = ''General'' \<and> tone \<noteq> ''Neutral'' \<longrightarrow>
      apply_style_hints text tone domain tgt_lang =
        ''['' @ tone @ '' tone in '' @ tgt_lang @ ''] '' @ text)
   \<and> apply_style_hints ''Hi'' ''Formal'' ''Business'' ''French''
        = ''[Business context, Formal tone in French] Hi''
   \<and> (\<exists>hint. apply_style_hints ''Hi'' ''Formal'' ''Business'' ''French'' = hint @ ''Hi''
        \<and> sublist ''Business context'' hint \<and> sublist ''Formal tone'' hint)"
proof (intro conjI impI)
  have e: "apply_style_hints ''Hi'' ''Formal'' ''Business'' ''French''
      = ''[Business context, Formal tone in French] '' @ ''Hi''"
    by (simp add: apply_style_hints_def)
  have 1: "''[Business context, Formal tone in French] ''
      = ''['' @ ''Business context'' @ '', Formal tone in French] ''" by simp
  have 2: "''[Business context, Formal tone in French] ''
      = ''[Business context, '' @ ''Formal tone'' @ '' in French] ''" by simp
  have s1: "sublist ''Business context'' ''[Business context, Formal tone in French] ''"
    unfolding sublist_def using 1 by blast
  have s2: "sublist ''Formal tone'' ''[Business context, Formal tone in French] ''"
    unfolding sublist_def using 2 by blast
  from e s1 s2
  show "\<exists>hint. apply_style_hints ''Hi'' ''Formal'' ''Business'' ''French'' = hint @ ''Hi''
        \<and> sublist ''Business context'' hint \<and> sublist ''Formal tone'' hint"
    by blast
qed (simp_all add: apply_style_hints_def)

theorem style_hint_composition_witness:
  "''Technical'' \<noteq> ''General'' \<and> ''Informal'' \<noteq> ''Neutral''
   \<and> apply_style_hints ''Hello'' ''Informal'' ''Technical'' ''German''
       = ''[Technical context, Informal tone in German] Hello''
   \<and> apply_style_hints ''Hello'' ''Neutral'' ''Technical'' ''German''
       = ''[Technical context in German] Hello''
   \<and> apply_style_hints ''Hello'' ''Informal'' ''General'' ''German''
       = ''[Informal tone in German] Hello''"
  using style_hint_composition [of "''Technical''" "''Informal''" "''Hello''" "''German''"]
    style_hint_composition [of "''Technical''" "''Neutral''" "''Hello''" "''German''"]
    style_hint_composition [of "''General''" "''Informal''" "''Hello''" "''German''"]
  by simp

subsection \<open>The pipeline cache\<close>

text \<open>
  Claim C3, as the code has it, for calls made one after the other (a call returns before
  the next one starts; the code has no lock, and calls that overlap are outside this
  model). In every state the process can reach, a pair has been loaded with success once
  if it is in the cache and never otherwise, so at most once. For a pair of \<open>MODEL_MAP\<close>
  that is not in the cache and whose load succeeds, the first call of
  \<open>get_translation_pipeline\<close> applies \<^verbatim>\<open>pipeline\<close> to the task and the model name of the
  pair, returns exactly what it gave and stores it; a second call returns that same
  pipeline and changes nothing, whatever the loader would do then; the two calls together
  make exactly one call of \<^verbatim>\<open>pipeline\<close> for the pair. For a pair in the cache a call
  returns the stored pipeline and changes nothing. A load that raises stores nothing, and
  its exception is the result of the call: the next call loads again.
\<close>

theorem cache_idempotence:
  assumes "reachable s"
  shows "(\<forall>k. count_list (trace s) (Loaded k) = (if translation_pipelines s k = None then 0 else 1))
    \<and> (\<forall>pipeline pipeline2 src_code tgt_code model_name p.
          MODEL_MAP (src_code, tgt_code) = Some model_name \<and>
          translation_pipelines s (src_code, tgt_code) = None \<and>
          pipeline (''translation_'' @ src_code @ ''_to_'' @ tgt_code) model_name = Inr p \<longrightarrow>
            get_translation_pipeline pipeline src_code tgt_code s =
              (Inr p, s\<lparr>translation_pipelines := (translation_pipelines s)((src_code, tgt_code) \<mapsto> p),
                       trace := trace s @ [Loaded (src_code, tgt_code)]\<rparr>)
            \<and> get_translation_pipeline pipeline2 src_code tgt_code
                 (snd (get_translation_pipeline pipeline src_code tgt_code s)) =
                (Inr p, snd (get_translation_pipeline pipeline src_code tgt_code s))
            \<and> load_calls (src_code, tgt_code)
                 (trace (snd (get_translation_pipeline pipeline2 src_code tgt_code
                    (snd (get_translation_pipeline pipeline src_code tgt_code s))))) =
                load_calls (src_code, tgt_code) (trace s) + 1
            \<and> count_list
                 (trace (snd (get_translation_pipeline pipeline2 src_code tgt_code
                    (snd (get_translation_pipeline pipeline src_code tgt_code s)))))
                 (Loaded (src_code, tgt_code)) = 1)
    \<and> (\<forall>pipeline src_code tgt_code q.
          translation_pipelines s (src_code, tgt_code) = Some q \<longrightarrow>
            get_translation_pipeline pipeline src_code tgt_code s = (Inr q, s))
    \<and> (\<forall>pipeline src_code tgt_code model_name e.
          MODEL_MAP (src_code, tgt_code) = Some model_name \<and>
          translation_pipelines s (src_code, tgt_code) = None \<and>
          pipeline (''translation_'' @ src_code @ ''_to_'' @ tgt_code) model_name = Inl e \<longrightarrow>
            get_translation_pipeline pipeline src_code tgt_code s =
              (Inl e, s\<lparr>trace := trace s @ [LoadFailed (src_code, tgt_code)]\<rparr>))"
proof (intro conjI allI impI)
  from assms have inv: "cache_inv s" by (rule reachable_cache_inv)
  have counts: "count_list (trace s) (Loaded k) = (if translation_pipelines s k = None then 0 else 1)"
    for k using inv unfolding cache_inv_def by blast
  show "count_list (trace s) (Loaded k) = (if translation_pipelines s k = None then 0 else 1)" for k
    by (rule counts)
  {
    fix pipeline pipeline2 :: loader and src_code tgt_code model_name p
    assume a: "MODEL_MAP (src_code, tgt_code) = Some model_name \<and>
          translation_pipelines s (src_code, tgt_code) = None \<and>
          pipeline (''translation_'' @ src_code @ ''_to_'' @ tgt_code) model_name = Inr p"
    let ?key = "(src_code, tgt_code)"
    let ?s1 = "s\<lparr>translation_pipelines := (translation_pipelines s)(?key \<mapsto> p),
                 trace := trace s @ [Loaded ?key]\<rparr>"
    from a show 1: "get_translation_pipeline pipeline src_code tgt_code s = (Inr p, ?s1)"
      by (simp add: get_load_ok)
    from a have 2: "get_translation_pipeline pipeline2 src_code tgt_code ?s1 = (Inr p, ?s1)"
      by (simp add: get_cached)
    from 1 2 show "get_translation_pipeline pipeline2 src_code tgt_code
                 (snd (get_translation_pipeline pipeline src_code tgt_code s)) =
                (Inr p, snd (get_translation_pipeline pipeline src_code tgt_code s))"
      by simp
    from 1 2 show "load_calls ?key
                 (trace (snd (get_translation_pipeline pipeline2 src_code tgt_code
                    (snd (get_translation_pipeline pipeline src_code tgt_code s))))) =
                load_calls ?key (trace s) + 1"
      by (simp add: load_calls_def count_list_append)
    from 1 2 a show "count_list
                 (trace (snd (get_translation_pipeline pipeline2 src_code tgt_code
                    (snd (get_translation_pipeline pipeline src_code tgt_code s)))))
                 (Loaded ?key) = 1"
      by (simp add: counts count_list_append)
  }
  {
    fix pipeline :: loader and src_code tgt_code q
    assume c: "translation_pipelines s (src_code, tgt_code) = Some q"
    from inv have "dom (translation_pipelines s) \<subseteq> dom MODEL_MAP"
      by (simp add: cache_inv_def)
    with c obtain m where "MODEL_MAP (src_code, tgt_code) = Some m" by blast
    with c show "get_translation_pipeline pipeline src_code tgt_code s = (Inr q, s)"
      by (simp add: get_cached)
  }
  {
    fix pipeline :: loader and src_code tgt_code model_name e
    assume "MODEL_MAP (src_code, tgt_code) = Some model_name \<and>
          translation_pipelines s (src_code, tgt_code) = None \<and>
          pipeline (''translation_'' @ src_code @ ''_to_'' @ tgt_code) model_name = Inl e"
    then show "get_translation_pipeline pipeline src_code tgt_code s =
              (Inl e, s\<lparr>trace := trace s @ [LoadFailed (src_code, tgt_code)]\<rparr>)"
      by (simp add: get_load_failed)
  }
qed

theorem cache_idempotence_witness:
  "reachable initial_state
   \<and> MODEL_MAP (''en'', ''fr'') = Some ''Helsinki-NLP/opus-mt-en-fr''
   \<and> translation_pipelines initial_state (''en'', ''fr'') = None
   \<and> stub_pipeline ''translation_en_to_fr'' ''Helsinki-NLP/opus-mt-en-fr''
       = Inr (stub_translator ''translation_en_to_fr'')
   \<and> fst (get_translation_pipeline stub_pipeline ''en'' ''fr'' initial_state)
       = Inr (stub_translator ''translation_en_to_fr'')
   \<and> fst (get_translation_pipeline failing_pipeline ''en'' ''fr''
        (snd (get_translation_pipeline stub_pipeline ''en'' ''fr'' initial_state)))
       = Inr (stub_translator ''translation_en_to_fr'')
   \<and> trace (snd (get_translation_pipeline failing_pipeline ''en'' ''fr''
        (snd (get_translation_pipeline stub_pipeline ''en'' ''fr'' initial_state))))
       = [Loaded (''en'', ''fr'')]"
proof -
  have r: "reachable initial_state" by (rule reachable.start)
  have m: "MODEL_MAP (''en'', ''fr'') = Some ''Helsinki-NLP/opus-mt-en-fr''"
    by (simp add: MODEL_MAP_def)
  have c: "translation_pipelines initial_state (''en'', ''fr'') = None"
    by (simp add: initial_state_def)
  have l: "stub_pipeline (''translation_'' @ ''en'' @ ''_to_'' @ ''fr'') ''Helsinki-NLP/opus-mt-en-fr''
       = Inr (stub_translator ''translation_en_to_fr'')"
    by (simp add: stub_pipeline_def)
  from cache_idempotence [OF r] have
    "MODEL_MAP (''en'', ''fr'') = Some ''Helsinki-NLP/opus-mt-en-fr'' \<and>
     translation_pipelines initial_state (''en'', ''fr'') = None \<and>
     stub_pipeline (''translation_'' @ ''en'' @ ''_to_'' @ ''fr'') ''Helsinki-NLP/opus-mt-en-fr''
       = Inr (stub_translator ''translation_en_to_fr'') \<longrightarrow>
     get_translation_pipeline stub_pipeline ''en'' ''fr'' initial_state =
       (Inr (stub_translator ''translation_en_to_fr''),
        initial_state\<lparr>translation_pipelines :=
            (translation_pipelines initial_state)((''en'', ''fr'') \<mapsto>
               stub_translator ''translation_en_to_fr''),
          trace := trace initial_state @ [Loaded (''en'', ''fr'')]\<rparr>)
     \<and> get_translation_pipeline failing_pipeline ''en'' ''fr''
          (snd (get_translation_pipeline stub_pipeline ''en'' ''fr'' initial_state)) =
         (Inr (stub_translator ''translation_en_to_fr''),
          snd (get_translation_pipeline stub_pipeline ''en'' ''fr'' initial_state))"
    by blast
  with m c l have
    1: "get_translation_pipeline stub_pipeline ''en'' ''fr'' initial_state =
       (Inr (stub_translator ''translation_en_to_fr''),
        initial_state\<lparr>translation_pipelines :=
            (translation_pipelines initial_state)((''en'', ''fr'') \<mapsto>
               stub_translator ''translation_en_to_fr''),
          trace := trace initial_state @ [Loaded (''en'', ''fr'')]\<rparr>)" and
    2: "get_translation_pipeline failing_pipeline ''en'' ''fr''
          (snd (get_translation_pipeline stub_pipeline ''en'' ''fr'' initial_state)) =
         (Inr (stub_translator ''translation_en_to_fr''),
          snd (get_translation_pipeline stub_pipeline ''en'' ''fr'' initial_state))"
    by blast+
  have t: "trace initial_state = []" by (simp add: initial_state_def)
  from r m c l 1 2 t show ?thesis by simp
qed

text \<open>
  With a loader that raises, two calls for a supported pair call \<^verbatim>\<open>pipeline\<close> twice, and
  no model is in the cache afterwards.
\<close>

theorem cache_idempotence_counterexample:
  "trace (snd (get_translation_pipeline failing_pipeline ''en'' ''fr''
      (snd (get_translation_pipeline failing_pipeline ''en'' ''fr'' initial_state))))
     = [LoadFailed (''en'', ''fr''), LoadFailed (''en'', ''fr'')]
   \<and> load_calls (''en'', ''fr'')
       (trace (snd (get_translation_pipeline failing_pipeline ''en'' ''fr''
          (snd (get_translation_pipeline failing_pipeline ''en'' ''fr'' initial_state))))) = 2
   \<and> translation_pipelines
       (snd (get_translation_pipeline failing_pipeline ''en'' ''fr''
          (snd (get_translation_pipeline failing_pipeline ''en'' ''fr'' initial_state))))
       (''en'', ''fr'') = None"
  by (simp add: get_translation_pipeline_def MODEL_MAP_def failing_pipeline_def
      initial_state_def load_calls_def Let_def)

text \<open>
  Claim C10: a call of \<open>get_translation_pipeline\<close> with a pair that is not a key of
  \<open>MODEL_MAP\<close> raises before it touches the cache and returns the state as it was; and in
  every state the process can reach, every key of the cache is a key of \<open>MODEL_MAP\<close>.
\<close>

theorem cache_error_atomicity:
  "(MODEL_MAP (src_code, tgt_code) = None \<longrightarrow>
      get_translation_pipeline pipeline src_code tgt_code s =
        (Inl (ValueError (''Language pair '' @ src_code @ ''->'' @ tgt_code
                            @ '' not supported yet.'')), s))
   \<and> (reachable s \<longrightarrow> dom (translation_pipelines s) \<subseteq> dom MODEL_MAP)"
  using reachable_cache_inv [of s]
  by (simp add: get_unsupported cache_inv_def)

theorem cache_error_atomicity_witness:
  "MODEL_MAP (''fr'', ''de'') = None
   \<and> reachable (snd (get_translation_pipeline stub_pipeline ''en'' ''fr'' initial_state))
   \<and> snd (get_translation_pipeline stub_pipeline ''fr'' ''de''
        (snd (get_translation_pipeline stub_pipeline ''en'' ''fr'' initial_state)))
       = snd (get_translation_pipeline stub_pipeline ''en'' ''fr'' initial_state)
   \<and> dom (translation_pipelines
        (snd (get_translation_pipeline stub_pipeline ''en'' ''fr'' initial_state)))
       = {(''en'', ''fr'')}
   \<and> {(''en'', ''fr'')} \<subseteq> dom MODEL_MAP"
proof -
  let ?s = "snd (get_translation_pipeline stub_pipeline ''en'' ''fr'' initial_state)"
  have m: "MODEL_MAP (''fr'', ''de'') = None" by (simp add: MODEL_MAP_def)
  have r: "reachable ?s" by (rule reachable.after_get) (rule reachable.start)
  have d: "dom (translation_pipelines ?s) = {(''en'', ''fr'')}"
    by (simp add: get_translation_pipeline_def MODEL_MAP_def stub_pipeline_def
        initial_state_def Let_def)
  from cache_error_atomicity [of "''fr''" "''de''" stub_pipeline ?s] m r d
  show ?thesis by simp
qed

subsection \<open>Pairs without a model\<close>

text \<open>
  Claim C4: for every pair that is not a key of \<open>MODEL_MAP\<close>,
  \<open>get_translation_pipeline\<close> raises \<open>ValueError\<close> with the message that the pair is not
  supported; \<open>translate_text\<close>, called with a text to translate and two different language
  names whose codes form such a pair, returns that message as its result and raises nothing.
\<close>

theorem unsupported_pair:
  assumes "MODEL_MAP (src_code, tgt_code) = None"
  shows "get_translation_pipeline pipeline src_code tgt_code s =
      (Inl (ValueError (''Language pair '' @ src_code @ ''->'' @ tgt_code @ '' not supported yet.'')), s)
    \<and> (strip text \<noteq> [] \<and> src_lang \<noteq> tgt_lang \<and>
        LANG_CODES src_lang = Some src_code \<and> LANG_CODES tgt_lang = Some tgt_code \<longrightarrow>
        translate_text pipeline text src_lang tgt_lang tone domain s =
          (Inr (''Language pair '' @ src_code @ ''->'' @ tgt_code @ '' not supported yet.''), s))"
  using assms by (simp add: get_unsupported translate_unsupported)

theorem unsupported_pair_witness:
  "MODEL_MAP (''fr'', ''de'') = None
   \<and> strip ''Bonjour'' \<noteq> [] \<and> ''French'' \<noteq> ''German''
   \<and> LANG_CODES ''French'' = Some ''fr'' \<and> LANG_CODES ''German'' = Some ''de''
   \<and> get_translation_pipeline stub_pipeline ''fr'' ''de'' initial_state =
       (Inl (ValueError ''Language pair fr->de not supported yet.''), initial_state)
   \<and> translate_text stub_pipeline ''Bonjour'' ''French'' ''German'' ''Formal'' ''Business''
       initial_state = (Inr ''Language pair fr->de not supported yet.'', initial_state)"
proof -
  have m: "MODEL_MAP (''fr'', ''de'') = None" by (simp add: MODEL_MAP_def)
  have h: "strip ''Bonjour'' \<noteq> [] \<and> ''French'' \<noteq> ''German''
   \<and> LANG_CODES ''French'' = Some ''fr'' \<and> LANG_CODES ''German'' = Some ''de''"
    by (simp add: strip_def isspace_def LANG_CODES_def)
  from unsupported_pair [OF m, of stub_pipeline initial_state "''Bonjour''" "''French''" "''German''"
      "''Formal''" "''Business''"] m h
  show ?thesis by simp
qed

subsection \<open>Back-translation\<close>

text \<open>
  Claim C5, as the code has it: for every text whose trimmed form is not empty and every
  two different language names, with any tone and domain, \<open>back_translate\<close> runs
  \<open>translate_text\<close> on the text with the caller's hints, and then \<open>translate_text\<close> on the
  forward result in the opposite direction with the hints \<open>Neutral\<close> and \<open>General\<close>, in
  the state the first call left: the backward component is the result of that second
  call. An exception of either call is the exception of \<open>back_translate\<close>.
\<close>

theorem back_translation_asymmetry:
  assumes "strip text \<noteq> []" and "src_lang \<noteq> tgt_lang"
  shows "back_translate pipeline text src_lang tgt_lang tone domain s =
     (case translate_text pipeline text src_lang tgt_lang tone domain s of
        (Inl e, s1) \<Rightarrow> (Inl e, s1)
      | (Inr forward, s1) \<Rightarrow>
          (case translate_text pipeline forward tgt_lang src_lang ''Neutral'' ''General'' s1 of
             (Inl e, s2) \<Rightarrow> (Inl e, s2)
           | (Inr backward, s2) \<Rightarrow> (Inr (forward, backward), s2)))"
  using assms by (simp add: back_translate_def translate_strip)

theorem back_translation_asymmetry_witness:
  "strip '' Hi '' \<noteq> [] \<and> ''English'' \<noteq> ''French''
   \<and> fst (translate_text stub_pipeline '' Hi '' ''English'' ''French'' ''Formal'' ''Business''
          initial_state)
       = Inr ''<translation_en_to_fr> [Business context, Formal tone in French] Hi''
   \<and> fst (back_translate stub_pipeline '' Hi '' ''English'' ''French'' ''Formal'' ''Business''
          initial_state)
       = Inr (''<translation_en_to_fr> [Business context, Formal tone in French] Hi'',
              ''<translation_fr_to_en> <translation_en_to_fr> [Business context, Formal tone in French] Hi'')"
proof -
  have h1: "strip '' Hi '' \<noteq> []" by (simp add: strip_def isspace_def)
  have h2: "''English'' \<noteq> ''French''" by simp
  have f: "translate_text stub_pipeline '' Hi '' ''English'' ''French'' ''Formal'' ''Business''
          initial_state =
       (Inr ''<translation_en_to_fr> [Business context, Formal tone in French] Hi'',
        \<lparr>translation_pipelines = [(''en'', ''fr'') \<mapsto> stub_translator ''translation_en_to_fr''],
         trace = [Loaded (''en'', ''fr''),
                  Invoked (''en'', ''fr'') ''[Business context, Formal tone in French] Hi'']\<rparr>)"
    by (simp add: translate_text_def get_translation_pipeline_def apply_style_hints_def
        strip_def isspace_def LANG_CODES_def MODEL_MAP_def stub_pipeline_def
        stub_translator_def initial_state_def Let_def)
  have b: "fst (translate_text stub_pipeline
          ''<translation_en_to_fr> [Business context, Formal tone in French] Hi''
          ''French'' ''English'' ''Neutral'' ''General''
          \<lparr>translation_pipelines = [(''en'', ''fr'') \<mapsto> stub_translator ''translation_en_to_fr''],
           trace = [Loaded (''en'', ''fr''),
                  Invoked (''en'', ''fr'') ''[Business context, Formal tone in French] Hi'']\<rparr>)
     = Inr ''<translation_fr_to_en> <translation_en_to_fr> [Business context, Formal tone in French] Hi''"
    by (simp add: translate_text_def get_translation_pipeline_def apply_style_hints_def
        strip_def isspace_def LANG_CODES_def MODEL_MAP_def stub_pipeline_def
        stub_translator_def Let_def)
  from back_translation_asymmetry [OF h1 h2, of stub_pipeline "''Formal''" "''Business''"
      initial_state] h1 h2 f b
  show ?thesis by (simp split: prod.splits sum.splits)
qed

text \<open>
  For a text that is not empty but blank, the forward component is the prompt and the
  backward component is the empty string, which is not what \<open>translate_text\<close> returns for
  the prompt on the way back.
\<close>

theorem back_translation_asymmetry_counterexample:
  "back_translate stub_pipeline '' '' ''French'' ''German'' ''Formal'' ''Business'' initial_state
     = (Inr (''Please enter some text to translate.'', ''''), initial_state)
   \<and> translate_text stub_pipeline ''Please enter some text to translate.'' ''German'' ''French''
       ''Neutral'' ''General'' initial_state
     = (Inr ''Language pair de->fr not supported yet.'', initial_state)"
  by (simp add: back_translate_def translate_text_def get_translation_pipeline_def
        strip_def isspace_def LANG_CODES_def MODEL_MAP_def)

end
